theory Spec2Isabelle
  imports Complex_Main
begin

section \<open>Weather-App: the state and fetch orchestration of \<open>src/App.js\<close>\<close>

text \<open>
  The component \<open>App\<close> owns seven \<open>useState\<close> cells, one debounced asynchronous
  function \<open>fetchWeatherData\<close>, two effects and two event handlers. Everything it
  does beyond updating its own state goes through three platform services: \<open>fetch\<close>
  (the network), \<open>localStorage\<close> (one slot, \<open>CACHE_KEY\<close>) and \<open>JSON\<close>. The model
  below passes the state explicitly, logs every network request, and takes what the
  platform answers (responses, clock readings, a refused write) as an input.
\<close>

subsection \<open>JavaScript values and exceptions\<close>

text \<open>
  The payloads are passed through untouched, so a value is a JSON tree plus
  \<open>undefined\<close> (the result of reading a property that is not there). Numbers are only
  ever tested for being zero (truthiness), so they are reals here.
\<close>

datatype jsval =
    Undefined
  | Null
  | Bool bool
  | Num real
  | Str string
  | Arr "jsval list"
  | Obj "(string \<times> jsval) list"

text \<open>A thrown value is an error object; only its \<open>message\<close> is ever read.\<close>

datatype exn =
    Error string
  | TypeError string
  | SyntaxError string
  | DOMException string

fun message :: "exn \<Rightarrow> string" where
  "message (Error m) = m"
| "message (TypeError m) = m"
| "message (SyntaxError m) = m"
| "message (DOMException m) = m"

text \<open>\<open>if (v)\<close> and \<open>v ? a : b\<close>: the falsy values are \<open>undefined\<close>, \<open>null\<close>,
  \<open>false\<close>, zero and the empty string.\<close>

fun truthy :: "jsval \<Rightarrow> bool" where
  "truthy Undefined = False"
| "truthy Null = False"
| "truthy (Bool b) = b"
| "truthy (Num r) = (r \<noteq> 0)"
| "truthy (Str s) = (s \<noteq> [])"
| "truthy (Arr xs) = True"
| "truthy (Obj ps) = True"

text \<open>
  The property read \<open>v.k\<close>, for the four names the code reads from the cached record
  (\<open>city\<close>, \<open>weatherData\<close>, \<open>forecastData\<close>, \<open>lastUpdated\<close>): it throws on
  \<open>undefined\<close> and \<open>null\<close>, yields the own property of an object, and \<open>undefined\<close>
  where there is none (no primitive wrapper or array prototype has these names).
\<close>

fun get :: "jsval \<Rightarrow> string \<Rightarrow> exn + jsval" where
  "get Undefined k = Inl (TypeError ''Cannot read properties of undefined'')"
| "get Null k = Inl (TypeError ''Cannot read properties of null'')"
| "get (Obj ps) k = Inr (case map_of ps k of None \<Rightarrow> Undefined | Some v \<Rightarrow> v)"
| "get v k = Inr Undefined"

text \<open>Sequencing of steps that may throw: the first exception ends the sequence.\<close>

definition and_then :: "exn + 'a \<Rightarrow> ('a \<Rightarrow> exn + 'b) \<Rightarrow> exn + 'b" where
  "and_then r k = (case r of Inl e \<Rightarrow> Inl e | Inr v \<Rightarrow> k v)"

subsection \<open>The cache slot: \<open>localStorage\<close> and \<open>JSON\<close>\<close>

text \<open>
  The slot holds a text, or nothing. A text is represented by what \<open>JSON.parse\<close> makes
  of it: either it is not well-formed JSON (\<open>Malformed\<close>, with the text), or it parses to
  a value (\<open>Json\<close>).
\<close>

datatype stored = Malformed string | Json jsval

text \<open>
  What \<open>JSON.parse(JSON.stringify(v))\<close> gives back for a value that \<open>stringify\<close>
  writes: a property whose value is \<open>undefined\<close> is left out of an object, and
  \<open>undefined\<close> in an array is written as \<open>null\<close>.
\<close>

fun jsonify :: "jsval \<Rightarrow> jsval" where
  "jsonify (Arr xs) = Arr (map (\<lambda>x. case jsonify x of Undefined \<Rightarrow> Null | y \<Rightarrow> y) xs)"
| "jsonify (Obj ps) = Obj (filter (\<lambda>(k, v). v \<noteq> Undefined) (map (\<lambda>(k, v). (k, jsonify v)) ps))"
| "jsonify v = v"

text \<open>\<open>JSON.stringify(v)\<close>, as the text \<open>setItem\<close> then stores. For \<open>undefined\<close> it
  returns \<open>undefined\<close>, which \<open>setItem\<close> stores as the text \<open>undefined\<close>.\<close>

fun JSON_stringify :: "jsval \<Rightarrow> stored" where
  "JSON_stringify Undefined = Malformed ''undefined''"
| "JSON_stringify v = Json (jsonify v)"

text \<open>\<open>JSON.parse(localStorage.getItem(CACHE_KEY))\<close>: \<open>getItem\<close> returns \<open>null\<close> for
  an empty slot, which \<open>JSON.parse\<close> reads as the text \<open>null\<close>; a text that is not
  well-formed JSON makes it throw a \<open>SyntaxError\<close> (the wording of its message is the
  engine's).\<close>

fun JSON_parse :: "stored option \<Rightarrow> exn + jsval" where
  "JSON_parse None = Inr Null"
| "JSON_parse (Some (Malformed s)) = Inl (SyntaxError ''Unexpected token in JSON'')"
| "JSON_parse (Some (Json v)) = Inr v"

subsection \<open>The network\<close>

text \<open>
  A request is one of the two URL templates with the city name substituted; the host,
  \<open>appid=API_KEY\<close> and \<open>units=metric\<close> are the same in every request.
\<close>

datatype endpoint = weather | forecast

datatype request = GET endpoint jsval

text \<open>
  A response has the flag \<open>ok\<close> and a body; \<open>json()\<close> resolves to the parsed body or
  rejects. \<open>fetch\<close> itself rejects when the request fails at network level.
\<close>

record response =
  ok :: bool
  json :: "exn + jsval"

datatype fetch_result = Rejected exn | Resolved response

text \<open>What one run of the fetch function meets: the network's answer to each request,
  the two readings of \<open>new Date().toISOString()\<close>, and whether \<open>setItem\<close> throws
  (a full or disabled storage).\<close>

record cycle_env =
  fetch :: "request \<Rightarrow> fetch_result"
  date1 :: string
  date2 :: string
  setItem_throws :: "exn option"

subsection \<open>State\<close>

record ui_state =
  city :: jsval
  weatherData :: jsval
  forecastData :: jsval
  isLoading :: bool
  error :: "string option"
  unit :: string
  lastUpdated :: jsval

text \<open>
  Beside the \<open>useState\<close> cells: the cache slot, the debounce timer (the arguments of
  the pending call and the time at which it is due), the requests sent so far, and
  whether the component is still mounted.
\<close>

record app =
  ui :: ui_state
  storage :: "stored option"
  timer :: "(jsval \<times> nat) option"
  requests :: "request list"
  mounted :: bool

definition DEFAULT_CITY :: string where
  "DEFAULT_CITY = ''Delhi''"

definition init_ui :: ui_state where
  "init_ui = \<lparr>city = Str DEFAULT_CITY, weatherData = Null, forecastData = Null,
     isLoading = True, error = None, unit = ''celsius'', lastUpdated = Null\<rparr>"

definition init_app :: "stored option \<Rightarrow> app" where
  "init_app slot = \<lparr>ui = init_ui, storage = slot, timer = None, requests = [], mounted = True\<rparr>"

text \<open>A state setter; React drops the update of a component that is no longer mounted.\<close>

definition set_ui :: "(ui_state \<Rightarrow> ui_state) \<Rightarrow> app \<Rightarrow> app" where
  "set_ui f a = (if mounted a then a\<lparr>ui := f (ui a)\<rparr> else a)"

definition setCity :: "jsval \<Rightarrow> app \<Rightarrow> app" where
  "setCity v = set_ui (\<lambda>u. u\<lparr>city := v\<rparr>)"

definition setWeatherData :: "jsval \<Rightarrow> app \<Rightarrow> app" where
  "setWeatherData v = set_ui (\<lambda>u. u\<lparr>weatherData := v\<rparr>)"

definition setForecastData :: "jsval \<Rightarrow> app \<Rightarrow> app" where
  "setForecastData v = set_ui (\<lambda>u. u\<lparr>forecastData := v\<rparr>)"

definition setIsLoading :: "bool \<Rightarrow> app \<Rightarrow> app" where
  "setIsLoading b = set_ui (\<lambda>u. u\<lparr>isLoading := b\<rparr>)"

definition setError :: "string option \<Rightarrow> app \<Rightarrow> app" where
  "setError e = set_ui (\<lambda>u. u\<lparr>error := e\<rparr>)"

definition setLastUpdated :: "jsval \<Rightarrow> app \<Rightarrow> app" where
  "setLastUpdated v = set_ui (\<lambda>u. u\<lparr>lastUpdated := v\<rparr>)"

text \<open>\<open>setUnit(f)\<close> with an updater function.\<close>

definition setUnit :: "(string \<Rightarrow> string) \<Rightarrow> app \<Rightarrow> app" where
  "setUnit f = set_ui (\<lambda>u. u\<lparr>unit := f (unit u)\<rparr>)"

subsection \<open>The fetch function (lines 22 to 57)\<close>

definition send :: "request \<Rightarrow> app \<Rightarrow> app" where
  "send r a = a\<lparr>requests := requests a @ [r]\<rparr>"

text \<open>
  Lines 26 to 38 of the \<open>try\<close> block: the two requests, the test of \<open>ok\<close> and the
  two bodies. Each \<open>await\<close> either yields its value or throws, and nothing done before
  a throw is undone: the result is the exception or the two parsed bodies, together
  with the state reached by then.
\<close>

definition fetch_snapshot ::
  "cycle_env \<Rightarrow> jsval \<Rightarrow> app \<Rightarrow> (exn + jsval \<times> jsval) \<times> app" where
  "fetch_snapshot env cityName a =
    (let a1 = send (GET weather cityName) a in
     case fetch env (GET weather cityName) of
       Rejected e \<Rightarrow> (Inl e, a1)
     | Resolved weatherResponse \<Rightarrow>
         (let a2 = send (GET forecast cityName) a1 in
          case fetch env (GET forecast cityName) of
            Rejected e \<Rightarrow> (Inl e, a2)
          | Resolved forecastResponse \<Rightarrow>
              if \<not> ok weatherResponse \<or> \<not> ok forecastResponse
              then (Inl (Error ''City not found''), a2)
              else
                (case json weatherResponse of
                   Inl e \<Rightarrow> (Inl e, a2)
                 | Inr wd \<Rightarrow>
                     (case json forecastResponse of
                        Inl e \<Rightarrow> (Inl e, a2)
                      | Inr fd \<Rightarrow> (Inr (wd, fd), a2)))))"

text \<open>
  The whole \<open>try\<close> block: lines 26 to 38, then the three setters and the write of the
  cache record (lines 40 to 51). It returns the exception it ends with, if any.
\<close>

definition try_block :: "cycle_env \<Rightarrow> jsval \<Rightarrow> app \<Rightarrow> exn option \<times> app" where
  "try_block env cityName a =
    (case fetch_snapshot env cityName a of
       (Inl e, a2) \<Rightarrow> (Some e, a2)
     | (Inr (wd, fd), a2) \<Rightarrow>
         (let a3 = setLastUpdated (Str (date1 env))
                     (setForecastData fd (setWeatherData wd a2));
              cacheData = Obj [(''city'', cityName), (''weatherData'', wd),
                (''forecastData'', fd), (''lastUpdated'', Str (date2 env))]
          in case setItem_throws env of
               Some e \<Rightarrow> (Some e, a3)
             | None \<Rightarrow> (None, a3\<lparr>storage := Some (JSON_stringify cacheData)\<rparr>)))"

text \<open>
  The function handed to \<open>debounce\<close>: the two setters, the \<open>try\<close> block, \<open>catch\<close>
  and \<open>finally\<close>. This is one run taken as a whole, from its start to its
  \<open>finally\<close>, with nothing happening at its \<open>await\<close>s; the steps of a run, and what
  may come between them, follow below.
\<close>

definition fetchWeatherData_body :: "cycle_env \<Rightarrow> jsval \<Rightarrow> app \<Rightarrow> app" where
  "fetchWeatherData_body env cityName a =
    (let a1 = setError None (setIsLoading True a);
         (thrown, a2) = try_block env cityName a1;
         a3 = (case thrown of Some err \<Rightarrow> setError (Some (message err)) a2 | None \<Rightarrow> a2)
     in setIsLoading False a3)"

subsection \<open>The fetch function, step by step\<close>

text \<open>
  A run is suspended at each \<open>await\<close> (lines 26, 29, 37 and 38), and whatever else is
  due runs in between: the steps of another run, a handler. A suspended run is the line it
  waits at together with the local variables it holds.
\<close>

datatype run =
    Awaiting_weather jsval
  | Awaiting_forecast jsval response
  | Awaiting_weather_body jsval response response
  | Awaiting_forecast_body jsval response jsval
  | Finished

text \<open>\<open>catch\<close> and \<open>finally\<close> (lines 52 to 56).\<close>

definition catch_finally :: "exn \<Rightarrow> app \<Rightarrow> app" where
  "catch_finally err a = setIsLoading False (setError (Some (message err)) a)"

text \<open>
  Lines 40 to 51 and \<open>finally\<close>: what follows the last \<open>await\<close> of a run whose two
  bodies have been parsed. Nothing here sets \<open>error\<close>, unless \<open>setItem\<close> throws.
\<close>

definition complete :: "cycle_env \<Rightarrow> jsval \<Rightarrow> jsval \<Rightarrow> jsval \<Rightarrow> app \<Rightarrow> app" where
  "complete env cityName wd fd a =
    (let a3 = setLastUpdated (Str (date1 env)) (setForecastData fd (setWeatherData wd a));
         cacheData = Obj [(''city'', cityName), (''weatherData'', wd),
           (''forecastData'', fd), (''lastUpdated'', Str (date2 env))]
     in case setItem_throws env of
          Some e \<Rightarrow> catch_finally e a3
        | None \<Rightarrow> setIsLoading False (a3\<lparr>storage := Some (JSON_stringify cacheData)\<rparr>))"

text \<open>The start of a run, up to the first \<open>await\<close>: lines 23 to 26.\<close>

definition run_begin :: "jsval \<Rightarrow> app \<Rightarrow> run \<times> app" where
  "run_begin cityName a =
     (Awaiting_weather cityName,
      send (GET weather cityName) (setError None (setIsLoading True a)))"

text \<open>A suspended run goes on to its next \<open>await\<close>, or to its end.\<close>

fun run_resume :: "cycle_env \<Rightarrow> run \<Rightarrow> app \<Rightarrow> run \<times> app" where
  "run_resume env (Awaiting_weather cityName) a =
     (case fetch env (GET weather cityName) of
        Rejected e \<Rightarrow> (Finished, catch_finally e a)
      | Resolved weatherResponse \<Rightarrow>
          (Awaiting_forecast cityName weatherResponse, send (GET forecast cityName) a))"
| "run_resume env (Awaiting_forecast cityName weatherResponse) a =
     (case fetch env (GET forecast cityName) of
        Rejected e \<Rightarrow> (Finished, catch_finally e a)
      | Resolved forecastResponse \<Rightarrow>
          if \<not> ok weatherResponse \<or> \<not> ok forecastResponse
          then (Finished, catch_finally (Error ''City not found'') a)
          else (Awaiting_weather_body cityName weatherResponse forecastResponse, a))"
| "run_resume env (Awaiting_weather_body cityName weatherResponse forecastResponse) a =
     (case json weatherResponse of
        Inl e \<Rightarrow> (Finished, catch_finally e a)
      | Inr wd \<Rightarrow> (Awaiting_forecast_body cityName forecastResponse wd, a))"
| "run_resume env (Awaiting_forecast_body cityName forecastResponse wd) a =
     (case json forecastResponse of
        Inl e \<Rightarrow> (Finished, catch_finally e a)
      | Inr fd \<Rightarrow> (Finished, complete env cityName wd fd a))"
| "run_resume env Finished a = (Finished, a)"

text \<open>
  A run with what happens in between: \<open>between\<close> lists, for each \<open>await\<close> in turn,
  what is done to the state while the run is suspended there.
\<close>

fun resume_all :: "cycle_env \<Rightarrow> (app \<Rightarrow> app) list \<Rightarrow> run \<times> app \<Rightarrow> run \<times> app" where
  "resume_all env [] (r, a) = (r, a)"
| "resume_all env (f # fs) (r, a) = resume_all env fs (run_resume env r (f a))"

definition run_overlapped ::
  "cycle_env \<Rightarrow> jsval \<Rightarrow> (app \<Rightarrow> app) list \<Rightarrow> app \<Rightarrow> app" where
  "run_overlapped env cityName between a = snd (resume_all env between (run_begin cityName a))"

subsection \<open>The debounce wrapper\<close>

text \<open>
  Modelled from the spec: \<open>debounce\<close> of the package \<open>lodash.debounce\<close>, which
  \<open>App.js\<close> imports and whose code is not part of the sources. Section 4.3: there is
  exactly one pending slot; a call (re)starts the quiet-window timer of 300 ms with the
  new arguments, discarding the ones held before; the wrapped function runs with the
  arguments held once the window has elapsed with no further call.
\<close>

definition wait :: nat where
  "wait = 300"

definition fetchWeatherData :: "jsval \<Rightarrow> nat \<Rightarrow> app \<Rightarrow> app" where
  "fetchWeatherData cityName now a = a\<lparr>timer := Some (cityName, now + wait)\<rparr>"

text \<open>
  Modelled from the spec: time passing up to \<open>now\<close> (in ms). A pending call that is due
  by then runs, in the environment \<open>world\<close> offers at the time it is due.
\<close>

definition advance :: "(nat \<Rightarrow> cycle_env) \<Rightarrow> nat \<Rightarrow> app \<Rightarrow> app" where
  "advance world now a =
    (case timer a of
       None \<Rightarrow> a
     | Some (cityName, due) \<Rightarrow>
         if due \<le> now then fetchWeatherData_body (world due) cityName (a\<lparr>timer := None\<rparr>)
         else a)"

text \<open>A sequence of calls of the debounced function, each at its time.\<close>

fun run_calls :: "(nat \<Rightarrow> cycle_env) \<Rightarrow> (nat \<times> jsval) list \<Rightarrow> app \<Rightarrow> app" where
  "run_calls world [] a = a"
| "run_calls world ((t, cityName) # calls) a =
     run_calls world calls (fetchWeatherData cityName t (advance world t a))"

subsection \<open>Effects and handlers (lines 61 to 83)\<close>

text \<open>
  The first effect, run once after the first render; \<open>rendered\<close> is the value of
  \<open>city\<close> in that render. An exception leaves the effect.
\<close>

definition startup_effect :: "jsval \<Rightarrow> nat \<Rightarrow> app \<Rightarrow> exn + app" where
  "startup_effect rendered now a =
    and_then (JSON_parse (storage a)) (\<lambda>cachedData.
    and_then
      (if truthy cachedData then
         and_then (get cachedData ''city'') (\<lambda>c.
         and_then (get cachedData ''weatherData'') (\<lambda>w.
         and_then (get cachedData ''forecastData'') (\<lambda>f.
         and_then (get cachedData ''lastUpdated'') (\<lambda>l.
         Inr (setIsLoading False (setLastUpdated l (setForecastData f
               (setWeatherData w (setCity c a)))))))))
       else Inr a) (\<lambda>a1.
    and_then (if truthy cachedData then get cachedData ''city'' else Inr rendered) (\<lambda>arg.
    Inr (fetchWeatherData arg now a1))))"

text \<open>The second effect, run after every render in which \<open>city\<close> has changed.\<close>

definition city_effect :: "jsval \<Rightarrow> nat \<Rightarrow> app \<Rightarrow> app" where
  "city_effect rendered now a = fetchWeatherData rendered now a"

text \<open>
  Mounting: both effects run with the \<open>city\<close> of the first render; if the first effect
  has set another city, the component renders again and the second effect runs with it.
\<close>

definition mount :: "nat \<Rightarrow> app \<Rightarrow> exn + app" where
  "mount now a =
    and_then (startup_effect (city (ui a)) now a) (\<lambda>a1.
      let a2 = city_effect (city (ui a)) now a1
      in Inr (if city (ui a2) \<noteq> city (ui a) then city_effect (city (ui a2)) now a2 else a2))"

text \<open>\<open>onCitySelect={setCity}\<close>, followed by the render it causes: the second effect
  runs again when \<open>city\<close> has changed (city names are strings, which JavaScript
  compares by value).\<close>

definition onCitySelect :: "jsval \<Rightarrow> nat \<Rightarrow> app \<Rightarrow> app" where
  "onCitySelect c now a =
    (let a1 = setCity c a
     in if city (ui a1) \<noteq> city (ui a) then city_effect (city (ui a1)) now a1 else a1)"

definition toggleUnit :: "app \<Rightarrow> app" where
  "toggleUnit a =
     setUnit (\<lambda>prevUnit. if prevUnit = ''celsius'' then ''fahrenheit'' else ''celsius'') a"

definition handleRefresh :: "nat \<Rightarrow> app \<Rightarrow> app" where
  "handleRefresh now a = fetchWeatherData (city (ui a)) now a"

text \<open>
  Unmounting runs the clean-up functions of the effects. Neither effect returns one, so
  the component is gone and nothing else changes.
\<close>

definition teardown :: "app \<Rightarrow> app" where
  "teardown a = a\<lparr>mounted := False\<rparr>"

subsection \<open>Notions used in the statements\<close>

text \<open>The requests that lines 26 to 31 send: the second \<open>fetch\<close> is reached only when
  the first \<open>await\<close> has yielded a response.\<close>

definition sent :: "cycle_env \<Rightarrow> jsval \<Rightarrow> request list" where
  "sent env c =
    (case fetch env (GET weather c) of
       Rejected e \<Rightarrow> [GET weather c]
     | Resolved r \<Rightarrow> [GET weather c, GET forecast c])"

text \<open>A burst: calls in the order of their times, each arriving before the quiet window
  opened by the one before it has elapsed.\<close>

fun burst :: "(nat \<times> jsval) list \<Rightarrow> bool" where
  "burst [] = True"
| "burst [x] = True"
| "burst ((t1, c1) # (t2, c2) # calls) =
     (t1 \<le> t2 \<and> t2 < t1 + wait \<and> burst ((t2, c2) # calls))"

text \<open>No pending call is due at time \<open>t\<close> or before.\<close>

definition quiet_at :: "nat \<Rightarrow> app \<Rightarrow> bool" where
  "quiet_at t a = (case timer a of None \<Rightarrow> True | Some (c, due) \<Rightarrow> t < due)"



text \<open>The slot is empty or holds well-formed JSON.\<close>

definition well_formed_slot :: "stored option \<Rightarrow> bool" where
  "well_formed_slot slot = (case slot of Some (Malformed s) \<Rightarrow> False | _ \<Rightarrow> True)"

text \<open>The values \<open>unit\<close> can take (section 3 of the specification).\<close>

definition unit_valid :: "ui_state \<Rightarrow> bool" where
  "unit_valid u = (unit u = ''celsius'' \<or> unit u = ''fahrenheit'')"

subsection \<open>Sample inputs\<close>

definition sample_weather :: jsval where
  "sample_weather = Obj [(''name'', Str ''Paris''), (''main'', Obj [(''temp'', Num 21)])]"

definition sample_forecast :: jsval where
  "sample_forecast = Obj [(''cnt'', Num 40), (''list'', Arr [])]"

text \<open>Both endpoints answer with success and a JSON body.\<close>

definition env_online :: cycle_env where
  "env_online =
    \<lparr>fetch = (\<lambda>r. case r of
        GET weather c \<Rightarrow> Resolved \<lparr>ok = True, json = Inr sample_weather\<rparr>
      | GET forecast c \<Rightarrow> Resolved \<lparr>ok = True, json = Inr sample_forecast\<rparr>),
     date1 = ''2024-05-01T10:00:00.000Z'', date2 = ''2024-05-01T10:00:00.001Z'',
     setItem_throws = None\<rparr>"

text \<open>No network: \<open>fetch\<close> rejects.\<close>

definition env_offline :: cycle_env where
  "env_offline = env_online\<lparr>fetch := (\<lambda>r. Rejected (TypeError ''Failed to fetch''))\<rparr>"

text \<open>Both endpoints answer 404.\<close>

definition not_found_response :: response where
  "not_found_response = \<lparr>ok = False,
     json = Inr (Obj [(''cod'', Str ''404''), (''message'', Str ''city not found'')])\<rparr>"

definition env_not_found :: cycle_env where
  "env_not_found = env_online\<lparr>fetch := (\<lambda>r. Resolved not_found_response)\<rparr>"

text \<open>Both endpoints answer with success and a body that is not JSON.\<close>

definition env_bad_body :: cycle_env where
  "env_bad_body = env_online\<lparr>fetch := (\<lambda>r. Resolved \<lparr>ok = True,
     json = Inl (SyntaxError ''Unexpected token < in JSON at position 0'')\<rparr>)\<rparr>"

text \<open>The first request is answered, the second one is rejected by the network.\<close>

definition env_forecast_down :: cycle_env where
  "env_forecast_down = env_online\<lparr>fetch := (\<lambda>r. case r of
        GET weather c \<Rightarrow> Resolved \<lparr>ok = True, json = Inr sample_weather\<rparr>
      | GET forecast c \<Rightarrow> Rejected (TypeError ''Failed to fetch''))\<rparr>"

text \<open>The state after a successful fetch for Paris.\<close>

definition showing_paris :: app where
  "showing_paris =
     fetchWeatherData_body env_online (Str ''Paris'') (setCity (Str ''Paris'') (init_app None))"

text \<open>The cache record of that state, as a value.\<close>

definition paris_record :: jsval where
  "paris_record = Obj [(''city'', Str ''Paris''), (''weatherData'', sample_weather),
     (''forecastData'', sample_forecast), (''lastUpdated'', Str ''2024-05-01T10:00:00.001Z'')]"

text \<open>A network that is up at all times.\<close>

definition world_online :: "nat \<Rightarrow> cycle_env" where
  "world_online t = env_online"

text \<open>The state right after mounting at time 0 with an empty cache slot: the call for
  the default city is pending.\<close>

definition just_mounted :: app where
  "just_mounted = (init_app None)\<lparr>timer := Some (Str DEFAULT_CITY, wait)\<rparr>"


section \<open>Properties\<close>

subsection \<open>Setters and the fetch function\<close>

lemma set_ui_simps [simp]:
  "storage (set_ui f a) = storage a"
  "timer (set_ui f a) = timer a"
  "requests (set_ui f a) = requests a"
  "mounted (set_ui f a) = mounted a"
  "ui (set_ui f a) = (if mounted a then f (ui a) else ui a)"
  by (simp_all add: set_ui_def)

lemmas setter_defs = setCity_def setWeatherData_def setForecastData_def setIsLoading_def
  setError_def setLastUpdated_def setUnit_def

text \<open>What lines 26 to 38 yield depends on the environment only; what they do to the
  state is to log the requests.\<close>

lemma snapshot_result_indep:
  "fst (fetch_snapshot env c a) = fst (fetch_snapshot env c b)"
  by (simp add: fetch_snapshot_def Let_def split: fetch_result.split sum.split)

lemma snapshot_state:
  "snd (fetch_snapshot env c a) = a\<lparr>requests := requests a @ sent env c\<rparr>"
  by (simp add: fetch_snapshot_def send_def sent_def Let_def
      split: fetch_result.split sum.split)

lemma snapshot_Inr_iff:
  "fst (fetch_snapshot env c a) = Inr (wd, fd) \<longleftrightarrow>
     (\<exists>wr fr. fetch env (GET weather c) = Resolved wr \<and> fetch env (GET forecast c) = Resolved fr
        \<and> ok wr \<and> ok fr \<and> json wr = Inr wd \<and> json fr = Inr fd)"
  by (auto simp add: fetch_snapshot_def Let_def split: fetch_result.split sum.split)

text \<open>The causes of a throw in lines 26 to 38: the first request rejected, the second
  request rejected, a response without success status, a body that does not parse.\<close>

lemma snapshot_Inl_iff:
  "fst (fetch_snapshot env c a) = Inl e \<longleftrightarrow>
     fetch env (GET weather c) = Rejected e
     \<or> (\<exists>wr. fetch env (GET weather c) = Resolved wr
          \<and> (fetch env (GET forecast c) = Rejected e
             \<or> (\<exists>fr. fetch env (GET forecast c) = Resolved fr
                  \<and> (((\<not> ok wr \<or> \<not> ok fr) \<and> e = Error ''City not found'')
                     \<or> (ok wr \<and> ok fr
                          \<and> (json wr = Inl e \<or> (\<exists>wd. json wr = Inr wd \<and> json fr = Inl e)))))))"
  by (auto simp add: fetch_snapshot_def Let_def split: fetch_result.split sum.split)

text \<open>The three ways a run can end: the fetch part throws; everything succeeds; the
  write of the cache record throws.\<close>

lemma body_failure:
  assumes "fst (fetch_snapshot env c a) = Inl e"
  shows "fetchWeatherData_body env c a =
     (set_ui (\<lambda>u. u\<lparr>isLoading := False, error := Some (message e)\<rparr>) a)
       \<lparr>requests := requests a @ sent env c\<rparr>"
proof -
  let ?a1 = "setError None (setIsLoading True a)"
  have "fst (fetch_snapshot env c ?a1) = Inl e"
    using assms snapshot_result_indep by metis
  then have "fetch_snapshot env c ?a1 = (Inl e, ?a1\<lparr>requests := requests ?a1 @ sent env c\<rparr>)"
    using snapshot_state [of env c ?a1] by (metis prod.collapse)
  then show ?thesis
    by (simp add: fetchWeatherData_body_def try_block_def setter_defs set_ui_def)
qed

lemma body_success:
  assumes "fst (fetch_snapshot env c a) = Inr (wd, fd)" and "setItem_throws env = None"
  shows "fetchWeatherData_body env c a =
     (set_ui (\<lambda>u. u\<lparr>weatherData := wd, forecastData := fd, isLoading := False,
         error := None, lastUpdated := Str (date1 env)\<rparr>) a)
       \<lparr>requests := requests a @ sent env c,
        storage := Some (JSON_stringify (Obj [(''city'', c), (''weatherData'', wd),
                (''forecastData'', fd), (''lastUpdated'', Str (date2 env))]))\<rparr>"
proof -
  let ?a1 = "setError None (setIsLoading True a)"
  have "fst (fetch_snapshot env c ?a1) = Inr (wd, fd)"
    using assms snapshot_result_indep by metis
  then have "fetch_snapshot env c ?a1 =
      (Inr (wd, fd), ?a1\<lparr>requests := requests ?a1 @ sent env c\<rparr>)"
    using snapshot_state [of env c ?a1] by (metis prod.collapse)
  then show ?thesis using assms(2)
    by (simp add: fetchWeatherData_body_def try_block_def setter_defs set_ui_def)
qed

lemma body_write_refused:
  assumes "fst (fetch_snapshot env c a) = Inr (wd, fd)" and "setItem_throws env = Some e"
  shows "fetchWeatherData_body env c a =
     (set_ui (\<lambda>u. u\<lparr>weatherData := wd, forecastData := fd, isLoading := False,
         error := Some (message e), lastUpdated := Str (date1 env)\<rparr>) a)
       \<lparr>requests := requests a @ sent env c\<rparr>"
proof -
  let ?a1 = "setError None (setIsLoading True a)"
  have "fst (fetch_snapshot env c ?a1) = Inr (wd, fd)"
    using assms snapshot_result_indep by metis
  then have "fetch_snapshot env c ?a1 =
      (Inr (wd, fd), ?a1\<lparr>requests := requests ?a1 @ sent env c\<rparr>)"
    using snapshot_state [of env c ?a1] by (metis prod.collapse)
  then show ?thesis using assms(2)
    by (simp add: fetchWeatherData_body_def try_block_def setter_defs set_ui_def)
qed

lemma body_requests: "requests (fetchWeatherData_body env c a) = requests a @ sent env c"
  by (cases "fst (fetch_snapshot env c a)"; cases "setItem_throws env")
     (auto simp: body_failure body_success body_write_refused)

lemma body_timer: "timer (fetchWeatherData_body env c a) = timer a"
  by (cases "fst (fetch_snapshot env c a)"; cases "setItem_throws env")
     (auto simp: body_failure body_success body_write_refused)


subsection \<open>The sample inputs, evaluated\<close>

lemma sample_snapshots:
  "fst (fetch_snapshot env_online c a) = Inr (sample_weather, sample_forecast)"
  "fst (fetch_snapshot env_offline c a) = Inl (TypeError ''Failed to fetch'')"
  "fst (fetch_snapshot env_not_found c a) = Inl (Error ''City not found'')"
  "fst (fetch_snapshot env_bad_body c a)
     = Inl (SyntaxError ''Unexpected token < in JSON at position 0'')"
  "fst (fetch_snapshot env_forecast_down c a) = Inl (TypeError ''Failed to fetch'')"
  by (simp_all add: fetch_snapshot_def env_online_def env_offline_def env_not_found_def
      not_found_response_def env_bad_body_def env_forecast_down_def)

lemma showing_paris_eq:
  "showing_paris =
    \<lparr>ui = \<lparr>city = Str ''Paris'', weatherData = sample_weather, forecastData = sample_forecast,
       isLoading = False, error = None, unit = ''celsius'',
       lastUpdated = Str ''2024-05-01T10:00:00.000Z''\<rparr>,
     storage = Some (Json (Obj [(''city'', Str ''Paris''), (''weatherData'', sample_weather),
       (''forecastData'', sample_forecast),
       (''lastUpdated'', Str ''2024-05-01T10:00:00.001Z'')])),
     timer = None,
     requests = [GET weather (Str ''Paris''), GET forecast (Str ''Paris'')],
     mounted = True\<rparr>"
  unfolding showing_paris_def
  apply (subst body_success [OF sample_snapshots(1)])
   apply (simp add: env_online_def)
  apply (simp add: env_online_def sent_def init_app_def init_ui_def setCity_def set_ui_def
      sample_weather_def sample_forecast_def)
  done

subsection \<open>The unit toggle\<close>

lemma unit_valid_init: "unit_valid (ui (init_app slot))"
  by (simp add: unit_valid_def init_app_def init_ui_def)

lemma unit_valid_toggleUnit: "unit_valid (ui a) \<Longrightarrow> unit_valid (ui (toggleUnit a))"
  by (simp add: unit_valid_def toggleUnit_def setUnit_def)

lemma unit_fetchWeatherData_body: "unit (ui (fetchWeatherData_body env c a)) = unit (ui a)"
  by (cases "fst (fetch_snapshot env c a)"; cases "setItem_throws env")
     (auto simp: body_failure body_success body_write_refused)

lemma unit_unchanged:
  "unit (ui (fetchWeatherData c now a)) = unit (ui a)"
  "unit (ui (handleRefresh now a)) = unit (ui a)"
  "unit (ui (onCitySelect c now a)) = unit (ui a)"
  "unit (ui (teardown a)) = unit (ui a)"
  "unit (ui (advance world now a)) = unit (ui a)"
  by (simp_all add: fetchWeatherData_def handleRefresh_def onCitySelect_def city_effect_def
      setCity_def teardown_def advance_def unit_fetchWeatherData_body Let_def
      split: option.split)

lemma unit_startup_effect:
  "startup_effect rendered now a = Inr a' \<Longrightarrow> unit (ui a') = unit (ui a)"
  by (auto simp: startup_effect_def and_then_def setter_defs fetchWeatherData_def
      split: sum.splits if_splits)

text \<open>
  Claim C8. From any state whose \<open>unit\<close> is one of the two units, \<open>toggleUnit\<close> called
  twice gives the state back, so \<open>unit\<close> has its original value. One call sends no
  request, leaves the debounce timer and the cache slot alone, and changes no field of
  the UI state other than \<open>unit\<close>.
\<close>

theorem toggleUnit_twice:
  assumes "unit_valid (ui a)"
  shows "toggleUnit (toggleUnit a) = a
    \<and> unit (ui (toggleUnit (toggleUnit a))) = unit (ui a)
    \<and> requests (toggleUnit a) = requests a
    \<and> timer (toggleUnit a) = timer a
    \<and> storage (toggleUnit a) = storage a
    \<and> toggleUnit a = a\<lparr>ui := (ui a)\<lparr>unit := unit (ui (toggleUnit a))\<rparr>\<rparr>"
  using assms by (auto simp: toggleUnit_def setUnit_def unit_valid_def set_ui_def)

theorem toggleUnit_twice_witness:
  "unit_valid (ui showing_paris)
   \<and> unit (ui (toggleUnit showing_paris)) = ''fahrenheit''
   \<and> unit (ui (toggleUnit (toggleUnit showing_paris))) = ''celsius''
   \<and> requests (toggleUnit showing_paris) = requests showing_paris
   \<and> timer (toggleUnit showing_paris) = None"
proof -
  have v: "unit_valid (ui showing_paris)"
    by (simp add: showing_paris_eq unit_valid_def)
  have f: "unit (ui (toggleUnit showing_paris)) = ''fahrenheit''"
    by (simp add: showing_paris_eq toggleUnit_def setUnit_def)
  have c: "unit (ui showing_paris) = ''celsius''" and t: "timer showing_paris = None"
    by (simp_all add: showing_paris_eq)
  from toggleUnit_twice [OF v]
  have "unit (ui (toggleUnit (toggleUnit showing_paris))) = unit (ui showing_paris)"
    and "requests (toggleUnit showing_paris) = requests showing_paris"
    and "timer (toggleUnit showing_paris) = timer showing_paris"
    by blast+
  then show ?thesis
    using v f c t by simp
qed

subsection \<open>A fetch that rejects\<close>

text \<open>
  Claim C3. When the fetch part of a run (lines 26 to 38) throws, for whatever reason
  (a request rejected, a response without success status, a body that does not parse),
  the run ends with \<open>isLoading\<close> false and \<open>error\<close> set to the exception's message,
  and \<open>weatherData\<close>, \<open>forecastData\<close> and \<open>lastUpdated\<close> are what they were.
\<close>

theorem fetch_rejects_keeps_data:
  assumes "mounted a" and "fst (fetch_snapshot env cityName a) = Inl e"
    and "a' = fetchWeatherData_body env cityName a"
  shows "isLoading (ui a') = False \<and> error (ui a') = Some (message e)
    \<and> weatherData (ui a') = weatherData (ui a)
    \<and> forecastData (ui a') = forecastData (ui a)
    \<and> lastUpdated (ui a') = lastUpdated (ui a)"
  using assms by (simp add: body_failure)

theorem fetch_rejects_keeps_data_witness:
  "mounted showing_paris
   \<and> fst (fetch_snapshot env_not_found (Str ''Atlantis'') showing_paris)
       = Inl (Error ''City not found'')
   \<and> isLoading (ui (fetchWeatherData_body env_not_found (Str ''Atlantis'') showing_paris))
       = False
   \<and> error (ui (fetchWeatherData_body env_not_found (Str ''Atlantis'') showing_paris))
       = Some ''City not found''
   \<and> weatherData (ui (fetchWeatherData_body env_not_found (Str ''Atlantis'') showing_paris))
       = sample_weather
   \<and> forecastData (ui (fetchWeatherData_body env_not_found (Str ''Atlantis'') showing_paris))
       = sample_forecast
   \<and> lastUpdated (ui (fetchWeatherData_body env_not_found (Str ''Atlantis'') showing_paris))
       = Str ''2024-05-01T10:00:00.000Z''"
proof -
  have m: "mounted showing_paris"
    by (simp add: showing_paris_eq)
  have r: "fst (fetch_snapshot env_not_found (Str ''Atlantis'') showing_paris)
      = Inl (Error ''City not found'')"
    by (rule sample_snapshots)
  show ?thesis
    using fetch_rejects_keeps_data [OF m r refl] m r by (simp add: showing_paris_eq)
qed

subsection \<open>The error message\<close>

text \<open>
  Claim C5, as stated: whatever makes a run fail, the error shown is "City not found".
  It fails when the network is down: \<open>fetch\<close> rejects, the \<open>catch\<close> clause
  shows the message of that rejection.
\<close>

theorem error_message_not_fixed_counterexample:
  "fst (fetch_snapshot env_offline (Str ''Paris'') (init_app None))
     = Inl (TypeError ''Failed to fetch'')
   \<and> error (ui (fetchWeatherData_body env_offline (Str ''Paris'') (init_app None)))
     = Some ''Failed to fetch''
   \<and> error (ui (fetchWeatherData_body env_offline (Str ''Paris'') (init_app None)))
     \<noteq> Some ''City not found''"
  by (simp add: body_failure [OF sample_snapshots(2)] sample_snapshots init_app_def)

text \<open>
  Claim C5, amended. When both requests resolve and one of the responses has no success
  status (whatever the status: an unknown city, a rejected credential), the error shown
  is "City not found". When a request is rejected at network level, the error shown is
  the message of that rejection.
\<close>

theorem error_message_by_cause:
  assumes "mounted a" and "a' = fetchWeatherData_body env cityName a"
  shows "(fetch env (GET weather cityName) = Resolved wr
          \<and> fetch env (GET forecast cityName) = Resolved fr \<and> (\<not> ok wr \<or> \<not> ok fr)
          \<longrightarrow> error (ui a') = Some ''City not found'')
    \<and> (fetch env (GET weather cityName) = Rejected e \<longrightarrow> error (ui a') = Some (message e))
    \<and> (fetch env (GET weather cityName) = Resolved wr
          \<and> fetch env (GET forecast cityName) = Rejected e
          \<longrightarrow> error (ui a') = Some (message e))"
proof (intro conjI impI)
  assume "fetch env (GET weather cityName) = Resolved wr
          \<and> fetch env (GET forecast cityName) = Resolved fr \<and> (\<not> ok wr \<or> \<not> ok fr)"
  then have "fst (fetch_snapshot env cityName a) = Inl (Error ''City not found'')"
    by (auto simp: fetch_snapshot_def)
  then show "error (ui a') = Some ''City not found''"
    using assms by (simp add: body_failure)
next
  assume "fetch env (GET weather cityName) = Rejected e"
  then have "fst (fetch_snapshot env cityName a) = Inl e"
    by (simp add: fetch_snapshot_def)
  then show "error (ui a') = Some (message e)"
    using assms by (simp add: body_failure)
next
  assume "fetch env (GET weather cityName) = Resolved wr
          \<and> fetch env (GET forecast cityName) = Rejected e"
  then have "fst (fetch_snapshot env cityName a) = Inl e"
    by (simp add: fetch_snapshot_def)
  then show "error (ui a') = Some (message e)"
    using assms by (simp add: body_failure)
qed

theorem error_message_by_cause_witness:
  "mounted showing_paris
   \<and> fetch env_not_found (GET weather (Str ''Atlantis'')) = Resolved not_found_response
   \<and> fetch env_not_found (GET forecast (Str ''Atlantis'')) = Resolved not_found_response
   \<and> \<not> ok not_found_response
   \<and> error (ui (fetchWeatherData_body env_not_found (Str ''Atlantis'') showing_paris))
       = Some ''City not found''
   \<and> fetch env_offline (GET weather (Str ''Atlantis'')) = Rejected (TypeError ''Failed to fetch'')
   \<and> error (ui (fetchWeatherData_body env_offline (Str ''Atlantis'') showing_paris))
       = Some ''Failed to fetch''
   \<and> fetch env_forecast_down (GET weather (Str ''Atlantis''))
       = Resolved \<lparr>ok = True, json = Inr sample_weather\<rparr>
   \<and> fetch env_forecast_down (GET forecast (Str ''Atlantis''))
       = Rejected (TypeError ''Failed to fetch'')
   \<and> error (ui (fetchWeatherData_body env_forecast_down (Str ''Atlantis'') showing_paris))
       = Some ''Failed to fetch''"
proof -
  have m: "mounted showing_paris"
    by (simp add: showing_paris_eq)
  have n: "fetch env_not_found (GET weather (Str ''Atlantis'')) = Resolved not_found_response"
    "fetch env_not_found (GET forecast (Str ''Atlantis'')) = Resolved not_found_response"
    "\<not> ok not_found_response"
    by (simp_all add: env_not_found_def not_found_response_def)
  have f: "fetch env_offline (GET weather (Str ''Atlantis''))
      = Rejected (TypeError ''Failed to fetch'')"
    by (simp add: env_offline_def)
  from error_message_by_cause [OF m refl, of env_not_found "Str ''Atlantis''"
      not_found_response not_found_response] n
  have 1: "error (ui (fetchWeatherData_body env_not_found (Str ''Atlantis'') showing_paris))
       = Some ''City not found''"
    by blast
  from error_message_by_cause [OF m refl, of env_offline "Str ''Atlantis''" _ _
      "TypeError ''Failed to fetch''"] f
  have 2: "error (ui (fetchWeatherData_body env_offline (Str ''Atlantis'') showing_paris))
       = Some ''Failed to fetch''"
    by simp
  have d: "fetch env_forecast_down (GET weather (Str ''Atlantis''))
       = Resolved \<lparr>ok = True, json = Inr sample_weather\<rparr>"
    "fetch env_forecast_down (GET forecast (Str ''Atlantis''))
       = Rejected (TypeError ''Failed to fetch'')"
    by (simp_all add: env_forecast_down_def)
  from error_message_by_cause [OF m refl, of env_forecast_down "Str ''Atlantis''"
      "\<lparr>ok = True, json = Inr sample_weather\<rparr>" _ "TypeError ''Failed to fetch''"] d
  have 3: "error (ui (fetchWeatherData_body env_forecast_down (Str ''Atlantis'')
      showing_paris)) = Some ''Failed to fetch''"
    by simp
  show ?thesis
    using m n f d 1 2 3 by simp
qed

subsection \<open>The cache slot after a failed fetch\<close>

text \<open>
  Claim C9. A run whose fetch part throws (a request rejected, a response without
  success status, a body that does not parse) leaves the cache slot as it was; and a run
  that has changed the slot is one in which both requests resolved with success status
  and both bodies were parsed.
\<close>

theorem failed_fetch_keeps_cache:
  "(fst (fetch_snapshot env cityName a) = Inl e \<longrightarrow>
      storage (fetchWeatherData_body env cityName a) = storage a)
   \<and> (storage (fetchWeatherData_body env cityName a) \<noteq> storage a \<longrightarrow>
        (\<exists>wr fr wd fd. fetch env (GET weather cityName) = Resolved wr
           \<and> fetch env (GET forecast cityName) = Resolved fr
           \<and> ok wr \<and> ok fr \<and> json wr = Inr wd \<and> json fr = Inr fd))"
proof (intro conjI impI)
  assume "fst (fetch_snapshot env cityName a) = Inl e"
  then show "storage (fetchWeatherData_body env cityName a) = storage a"
    by (simp add: body_failure)
next
  assume ch: "storage (fetchWeatherData_body env cityName a) \<noteq> storage a"
  show "\<exists>wr fr wd fd. fetch env (GET weather cityName) = Resolved wr
           \<and> fetch env (GET forecast cityName) = Resolved fr
           \<and> ok wr \<and> ok fr \<and> json wr = Inr wd \<and> json fr = Inr fd"
  proof (cases "fst (fetch_snapshot env cityName a)")
    case (Inl e')
    then show ?thesis
      using ch by (simp add: body_failure)
  next
    case (Inr p)
    then have "fst (fetch_snapshot env cityName a) = Inr (fst p, snd p)"
      by simp
    then show ?thesis
      unfolding snapshot_Inr_iff by blast
  qed
qed

theorem failed_fetch_keeps_cache_witness:
  "fst (fetch_snapshot env_offline (Str ''Rome'') showing_paris)
     = Inl (TypeError ''Failed to fetch'')
   \<and> storage (fetchWeatherData_body env_offline (Str ''Rome'') showing_paris)
     = storage showing_paris
   \<and> fst (fetch_snapshot env_not_found (Str ''Rome'') showing_paris)
     = Inl (Error ''City not found'')
   \<and> storage (fetchWeatherData_body env_not_found (Str ''Rome'') showing_paris)
     = storage showing_paris
   \<and> fst (fetch_snapshot env_bad_body (Str ''Rome'') showing_paris)
     = Inl (SyntaxError ''Unexpected token < in JSON at position 0'')
   \<and> storage (fetchWeatherData_body env_bad_body (Str ''Rome'') showing_paris)
     = storage showing_paris
   \<and> storage (fetchWeatherData_body env_online (Str ''Rome'') showing_paris)
     \<noteq> storage showing_paris
   \<and> (\<exists>wr fr wd fd. fetch env_online (GET weather (Str ''Rome'')) = Resolved wr
         \<and> fetch env_online (GET forecast (Str ''Rome'')) = Resolved fr
         \<and> ok wr \<and> ok fr \<and> json wr = Inr wd \<and> json fr = Inr fd)"
proof -
  have "storage (fetchWeatherData_body env_online (Str ''Rome'') showing_paris)
      = Some (JSON_stringify (Obj [(''city'', Str ''Rome''), (''weatherData'', sample_weather),
          (''forecastData'', sample_forecast), (''lastUpdated'', Str (date2 env_online))]))"
    by (subst body_success [OF sample_snapshots(1)]) (simp_all add: env_online_def)
  then have ch: "storage (fetchWeatherData_body env_online (Str ''Rome'') showing_paris)
      \<noteq> storage showing_paris"
    by (simp add: showing_paris_eq sample_weather_def sample_forecast_def)
  show ?thesis
    using failed_fetch_keeps_cache [of env_offline "Str ''Rome''" showing_paris
        "TypeError ''Failed to fetch''"]
      failed_fetch_keeps_cache [of env_not_found "Str ''Rome''" showing_paris
        "Error ''City not found''"]
      failed_fetch_keeps_cache [of env_bad_body "Str ''Rome''" showing_paris
        "SyntaxError ''Unexpected token < in JSON at position 0''"]
      failed_fetch_keeps_cache [of env_online "Str ''Rome''" showing_paris] ch
    by (simp add: sample_snapshots)
qed

subsection \<open>The order of the two requests\<close>

text \<open>
  Claim C10. A run sends the request for the current conditions first. It sends the
  forecast request after it, and only when the first \<open>fetch\<close> has resolved; when the
  first \<open>fetch\<close> is rejected, the forecast request is never sent.
\<close>

theorem requests_sequential:
  "(fetch env (GET weather cityName) = Rejected e \<longrightarrow>
      requests (fetchWeatherData_body env cityName a) = requests a @ [GET weather cityName])
   \<and> (fetch env (GET weather cityName) = Resolved wr \<longrightarrow>
      requests (fetchWeatherData_body env cityName a)
        = requests a @ [GET weather cityName, GET forecast cityName])"
  by (simp add: body_requests sent_def)

theorem requests_sequential_witness:
  "fetch env_offline (GET weather (Str ''Rome'')) = Rejected (TypeError ''Failed to fetch'')
   \<and> requests (fetchWeatherData_body env_offline (Str ''Rome'') (init_app None))
       = [GET weather (Str ''Rome'')]
   \<and> fetch env_not_found (GET weather (Str ''Rome'')) = Resolved not_found_response
   \<and> requests (fetchWeatherData_body env_not_found (Str ''Rome'') (init_app None))
       = [GET weather (Str ''Rome''), GET forecast (Str ''Rome'')]"
proof -
  have f: "fetch env_offline (GET weather (Str ''Rome''))
      = Rejected (TypeError ''Failed to fetch'')"
    by (simp add: env_offline_def)
  have n: "fetch env_not_found (GET weather (Str ''Rome'')) = Resolved not_found_response"
    by (simp add: env_not_found_def)
  have i: "requests (init_app None) = []"
    by (simp add: init_app_def)
  show ?thesis
    using requests_sequential [of env_offline "Str ''Rome''" "TypeError ''Failed to fetch''"
        "init_app None"]
      requests_sequential [of env_not_found "Str ''Rome''" _ "init_app None"
        not_found_response] f n i
    by simp
qed

subsection \<open>A successful fetch\<close>

lemma cache_record_fields:
  assumes "jsonify c = c"
  shows "get (jsonify (Obj [(''city'', c), (''weatherData'', wd), (''forecastData'', fd),
            (''lastUpdated'', Str t)])) ''city'' = Inr c"
    and "get (jsonify (Obj [(''city'', c), (''weatherData'', wd), (''forecastData'', fd),
            (''lastUpdated'', Str t)])) ''lastUpdated'' = Inr (Str t)"
  using assms
  by (cases "c = Undefined"; cases "jsonify wd = Undefined"; cases "jsonify fd = Undefined";
      simp)+

text \<open>
  A run that nothing overlaps: when both requests resolve with success status, both
  bodies parse and the storage takes the write, it ends with the two parsed bodies,
  \<open>error\<close> null and \<open>isLoading\<close> false, and the record is in the slot.
\<close>

lemma successful_fetch_alone:
  assumes "mounted a"
    and "fetch env (GET weather cityName) = Resolved wr"
    and "fetch env (GET forecast cityName) = Resolved fr"
    and "ok wr" and "ok fr"
    and "json wr = Inr wd" and "json fr = Inr fd"
    and "setItem_throws env = None"
    and "jsonify cityName = cityName"
    and "a' = fetchWeatherData_body env cityName a"
  shows "weatherData (ui a') = wd \<and> forecastData (ui a') = fd
    \<and> error (ui a') = None \<and> isLoading (ui a') = False
    \<and> lastUpdated (ui a') = Str (date1 env)
    \<and> storage a' = Some (JSON_stringify (Obj [(''city'', cityName), (''weatherData'', wd),
         (''forecastData'', fd), (''lastUpdated'', Str (date2 env))]))
    \<and> (\<exists>cacheData. JSON_parse (storage a') = Inr cacheData
         \<and> get cacheData ''city'' = Inr cityName
         \<and> get cacheData ''lastUpdated'' = Inr (Str (date2 env)))"
proof -
  have s: "fst (fetch_snapshot env cityName a) = Inr (wd, fd)"
    unfolding snapshot_Inr_iff using assms by blast
  let ?rec = "Obj [(''city'', cityName), (''weatherData'', wd),
         (''forecastData'', fd), (''lastUpdated'', Str (date2 env))]"
  have st: "storage a' = Some (JSON_stringify ?rec)"
    and u: "ui a' = (ui a)\<lparr>weatherData := wd, forecastData := fd, isLoading := False,
         error := None, lastUpdated := Str (date1 env)\<rparr>"
    using assms(1,8,10) by (simp_all add: body_success [OF s])
  have p: "JSON_parse (storage a') = Inr (jsonify ?rec)"
    unfolding st by (simp del: jsonify.simps)
  show ?thesis
    using st u p cache_record_fields [OF assms(9)] by (simp del: jsonify.simps)
qed

text \<open>The steps, with nothing in between, are one run taken as a whole.\<close>

lemma run_alone:
  "run_overlapped env c [\<lambda>x. x, \<lambda>x. x, \<lambda>x. x, \<lambda>x. x] a = fetchWeatherData_body env c a"
  by (simp add: run_overlapped_def run_begin_def fetchWeatherData_body_def try_block_def
      fetch_snapshot_def complete_def catch_finally_def Let_def send_def setter_defs set_ui_def
      split: fetch_result.split sum.split option.split)









subsection \<open>Startup\<close>

lemma fetchWeatherData_simps [simp]:
  "timer (fetchWeatherData c now a) = Some (c, now + wait)"
  "ui (fetchWeatherData c now a) = ui a"
  "storage (fetchWeatherData c now a) = storage a"
  "requests (fetchWeatherData c now a) = requests a"
  "mounted (fetchWeatherData c now a) = mounted a"
  by (simp_all add: fetchWeatherData_def)

lemma get_truthy: "truthy v \<Longrightarrow> \<exists>x. get v k = Inr x"
  by (cases v) simp_all

lemma startup_effect_cached:
  assumes "JSON_parse (storage a) = Inr cachedData" and "truthy cachedData"
  shows "\<exists>c w f l. get cachedData ''city'' = Inr c \<and> get cachedData ''weatherData'' = Inr w
     \<and> get cachedData ''forecastData'' = Inr f \<and> get cachedData ''lastUpdated'' = Inr l
     \<and> startup_effect rendered now a =
      Inr ((set_ui (\<lambda>u. u\<lparr>city := c, weatherData := w, forecastData := f, lastUpdated := l, isLoading := False\<rparr>) a)
        \<lparr>timer := Some (c, now + wait)\<rparr>)"
proof -
  obtain c w f l where g: "get cachedData ''city'' = Inr c" "get cachedData ''weatherData'' = Inr w"
    "get cachedData ''forecastData'' = Inr f" "get cachedData ''lastUpdated'' = Inr l"
    using get_truthy [OF assms(2)] by metis
  have "startup_effect rendered now a =
      Inr ((set_ui (\<lambda>u. u\<lparr>city := c, weatherData := w, forecastData := f, lastUpdated := l, isLoading := False\<rparr>) a)
        \<lparr>timer := Some (c, now + wait)\<rparr>)"
    using assms g
    by (simp add: startup_effect_def and_then_def setter_defs set_ui_def fetchWeatherData_def)
  with g show ?thesis by blast
qed

lemma startup_effect_absent:
  assumes "JSON_parse (storage a) = Inr cachedData" and "\<not> truthy cachedData"
  shows "startup_effect rendered now a = Inr (a\<lparr>timer := Some (rendered, now + wait)\<rparr>)"
  using assms by (simp add: startup_effect_def and_then_def fetchWeatherData_def)

lemma startup_effect_malformed:
  assumes "storage a = Some (Malformed s)"
  shows "startup_effect rendered now a = Inl (SyntaxError ''Unexpected token in JSON'')"
  using assms by (simp add: startup_effect_def and_then_def)

lemma mount_cached:
  assumes "JSON_parse slot = Inr cachedData" and "truthy cachedData"
  shows "\<exists>c w f l. get cachedData ''city'' = Inr c \<and> get cachedData ''weatherData'' = Inr w
     \<and> get cachedData ''forecastData'' = Inr f \<and> get cachedData ''lastUpdated'' = Inr l
     \<and> mount now (init_app slot) =
      Inr \<lparr>ui = \<lparr>city = c, weatherData = w, forecastData = f, isLoading = False, error = None, unit = ''celsius'', lastUpdated = l\<rparr>,
          storage = slot, timer = Some (c, now + wait), requests = [], mounted = True\<rparr>"
proof -
  have "JSON_parse (storage (init_app slot)) = Inr cachedData"
    using assms by (simp add: init_app_def)
  from startup_effect_cached [OF this assms(2), of "city (ui (init_app slot))" now]
  obtain c w f l where g: "get cachedData ''city'' = Inr c" "get cachedData ''weatherData'' = Inr w"
    "get cachedData ''forecastData'' = Inr f" "get cachedData ''lastUpdated'' = Inr l"
    and s: "startup_effect (city (ui (init_app slot))) now (init_app slot) =
      Inr ((set_ui (\<lambda>u. u\<lparr>city := c, weatherData := w, forecastData := f, lastUpdated := l, isLoading := False\<rparr>) (init_app slot))
        \<lparr>timer := Some (c, now + wait)\<rparr>)"
    by blast
  have "mount now (init_app slot) =
      Inr \<lparr>ui = \<lparr>city = c, weatherData = w, forecastData = f, isLoading = False, error = None, unit = ''celsius'', lastUpdated = l\<rparr>,
          storage = slot, timer = Some (c, now + wait), requests = [], mounted = True\<rparr>"
    unfolding mount_def s
    by (simp add: and_then_def city_effect_def fetchWeatherData_def init_app_def init_ui_def set_ui_def Let_def)
  with g show ?thesis by blast
qed

lemma mount_absent:
  assumes "JSON_parse slot = Inr cachedData" and "\<not> truthy cachedData"
  shows "mount now (init_app slot) = Inr ((init_app slot)\<lparr>timer := Some (Str DEFAULT_CITY, now + wait)\<rparr>)"
proof -
  have "JSON_parse (storage (init_app slot)) = Inr cachedData"
    using assms by (simp add: init_app_def)
  from startup_effect_absent [OF this assms(2)]
  show ?thesis
    by (simp add: mount_def and_then_def city_effect_def fetchWeatherData_def init_app_def init_ui_def)
qed


lemma mount_malformed:
  "mount now (init_app (Some (Malformed s))) = Inl (SyntaxError ''Unexpected token in JSON'')"
  by (simp add: mount_def and_then_def startup_effect_malformed init_app_def)

text \<open>The application itself never leaves a malformed text in the slot: the only write
  is that of a serialised record.\<close>

lemma body_keeps_slot_well_formed:
  assumes "well_formed_slot (storage a)"
  shows "well_formed_slot (storage (fetchWeatherData_body env c a))"
proof (cases "fst (fetch_snapshot env c a)")
  case (Inl e)
  then show ?thesis
    using assms by (simp add: body_failure)
next
  case (Inr p)
  then have s: "fst (fetch_snapshot env c a) = Inr (fst p, snd p)"
    by simp
  show ?thesis
  proof (cases "setItem_throws env")
    case None
    show ?thesis
      by (simp add: body_success [OF s None] well_formed_slot_def)
  next
    case (Some e)
    show ?thesis
      using assms by (simp add: body_write_refused [OF s Some])
  qed
qed

text \<open>
  Claim C4, as stated: a stored value that is missing or not well-formed JSON is read as
  "absent", and no error reaches the caller. It fails for a text that is not well-formed
  JSON: \<open>JSON.parse\<close> throws, no \<open>try\<close> surrounds it, and the exception leaves
  the effect.
\<close>

theorem malformed_cache_counterexample:
  "startup_effect (Str DEFAULT_CITY) 0 (init_app (Some (Malformed ''{'')))
     = Inl (SyntaxError ''Unexpected token in JSON'')"
  by (simp add: startup_effect_malformed init_app_def)

text \<open>
  Claim C4, amended. With an empty slot the startup effect proceeds as if there were no
  prior state: it raises nothing, leaves the UI state as it is and schedules the fetch
  for the default city. With a text that is not well-formed JSON it ends with the
  \<open>SyntaxError\<close> of \<open>JSON.parse\<close>.
\<close>

theorem cache_read:
  "(slot = None \<longrightarrow>
      startup_effect (Str DEFAULT_CITY) now (init_app slot)
        = Inr ((init_app slot)\<lparr>timer := Some (Str DEFAULT_CITY, now + wait)\<rparr>))
   \<and> (slot = Some (Malformed s) \<longrightarrow>
      startup_effect (Str DEFAULT_CITY) now (init_app slot)
        = Inl (SyntaxError ''Unexpected token in JSON''))"
  by (simp add: startup_effect_malformed startup_effect_absent [of _ Null] init_app_def)

theorem cache_read_witness:
  "startup_effect (Str DEFAULT_CITY) 0 (init_app None)
     = Inr \<lparr>ui = init_ui, storage = None, timer = Some (Str ''Delhi'', 300), requests = [], mounted = True\<rparr>
   \<and> startup_effect (Str DEFAULT_CITY) 0 (init_app (Some (Malformed ''{''))) 
     = Inl (SyntaxError ''Unexpected token in JSON'')"
  using cache_read [of None 0 "''{''"] cache_read [of "Some (Malformed ''{'')" 0 "''{''"]
  by (simp add: init_app_def DEFAULT_CITY_def wait_def)

text \<open>
  Claim C7. Let the slot be empty or hold well-formed JSON, read as \<open>cachedData\<close>.
  If \<open>cachedData\<close> is truthy (a record exists), the first effect puts its \<open>city\<close>,
  \<open>weatherData\<close>, \<open>forecastData\<close> and \<open>lastUpdated\<close> into the UI state and sets
  \<open>isLoading\<close> to false, before any request has been sent; otherwise the UI state
  stays the initial one. In both cases mounting ends with the debounced call pending for
  the resolved city (the cached city, else the default one), and once its window has
  elapsed the fetch function runs for that city.
\<close>

theorem startup_sequence:
  assumes "JSON_parse slot = Inr cachedData"
  shows "\<exists>a1 a2 resolved.
      startup_effect (Str DEFAULT_CITY) now (init_app slot) = Inr a1
    \<and> mount now (init_app slot) = Inr a2
    \<and> (if truthy cachedData
        then get cachedData ''city'' = Inr resolved
           \<and> city (ui a1) = resolved
           \<and> get cachedData ''weatherData'' = Inr (weatherData (ui a1))
           \<and> get cachedData ''forecastData'' = Inr (forecastData (ui a1))
           \<and> get cachedData ''lastUpdated'' = Inr (lastUpdated (ui a1))
           \<and> isLoading (ui a1) = False
        else resolved = Str DEFAULT_CITY \<and> ui a1 = init_ui)
    \<and> requests a1 = [] \<and> ui a2 = ui a1 \<and> requests a2 = []
    \<and> timer a2 = Some (resolved, now + wait)
    \<and> advance world (now + wait) a2
        = fetchWeatherData_body (world (now + wait)) resolved (a2\<lparr>timer := None\<rparr>)"
proof (cases "truthy cachedData")
  case True
  have p: "JSON_parse (storage (init_app slot)) = Inr cachedData"
    using assms by (simp add: init_app_def)
  from mount_cached [OF assms True, of now]
  obtain c w f l where g: "get cachedData ''city'' = Inr c" "get cachedData ''weatherData'' = Inr w"
    "get cachedData ''forecastData'' = Inr f" "get cachedData ''lastUpdated'' = Inr l"
    and m: "mount now (init_app slot) =
      Inr \<lparr>ui = \<lparr>city = c, weatherData = w, forecastData = f, isLoading = False, error = None, unit = ''celsius'', lastUpdated = l\<rparr>,
          storage = slot, timer = Some (c, now + wait), requests = [], mounted = True\<rparr>"
    by blast
  from startup_effect_cached [OF p True, of "Str DEFAULT_CITY" now] g
  have s: "startup_effect (Str DEFAULT_CITY) now (init_app slot) =
      Inr ((set_ui (\<lambda>u. u\<lparr>city := c, weatherData := w, forecastData := f, lastUpdated := l, isLoading := False\<rparr>) (init_app slot))
        \<lparr>timer := Some (c, now + wait)\<rparr>)"
    by simp
  show ?thesis
    unfolding s m using True g
    by (simp add: init_app_def init_ui_def advance_def)
next
  case False
  have p: "JSON_parse (storage (init_app slot)) = Inr cachedData"
    using assms by (simp add: init_app_def)
  show ?thesis
    unfolding mount_absent [OF assms False] startup_effect_absent [OF p False]
    using False by (simp add: init_app_def advance_def)
qed

theorem startup_sequence_witness:
  "JSON_parse (Some (Json paris_record)) = Inr paris_record
   \<and> truthy paris_record
   \<and> mount 0 (init_app (Some (Json paris_record)))
       = Inr \<lparr>ui = \<lparr>city = Str ''Paris'', weatherData = sample_weather,
                forecastData = sample_forecast, isLoading = False, error = None,
                unit = ''celsius'', lastUpdated = Str ''2024-05-01T10:00:00.001Z''\<rparr>,
              storage = Some (Json paris_record), timer = Some (Str ''Paris'', 300),
              requests = [], mounted = True\<rparr>
   \<and> JSON_parse None = Inr Null \<and> \<not> truthy Null
   \<and> mount 0 (init_app None)
       = Inr \<lparr>ui = init_ui, storage = None, timer = Some (Str ''Delhi'', 300),
              requests = [], mounted = True\<rparr>"
proof -
  have p: "JSON_parse (Some (Json paris_record)) = Inr paris_record" "truthy paris_record"
    and n: "JSON_parse None = Inr Null" "\<not> truthy Null"
    by (simp_all add: paris_record_def)
  have g: "get paris_record ''city'' = Inr (Str ''Paris'')"
    "get paris_record ''weatherData'' = Inr sample_weather"
    "get paris_record ''forecastData'' = Inr sample_forecast"
    "get paris_record ''lastUpdated'' = Inr (Str ''2024-05-01T10:00:00.001Z'')"
    by (simp_all add: paris_record_def)
  from startup_sequence [OF p(1), of 0 "\<lambda>t. env_online"] p(2) g
  obtain a1 a2 where 1: "mount 0 (init_app (Some (Json paris_record))) = Inr a2"
    "startup_effect (Str DEFAULT_CITY) 0 (init_app (Some (Json paris_record))) = Inr a1"
    "ui a2 = ui a1" "city (ui a1) = Str ''Paris''" "weatherData (ui a1) = sample_weather"
    "forecastData (ui a1) = sample_forecast" "lastUpdated (ui a1) = Str ''2024-05-01T10:00:00.001Z''"
    "isLoading (ui a1) = False" "requests a2 = []" "timer a2 = Some (Str ''Paris'', 0 + wait)"
    by auto
  have e1: "error (ui a1) = None" "unit (ui a1) = ''celsius''" 
    using 1(2) startup_effect_cached [OF _ p(2), of "init_app (Some (Json paris_record))" "Str DEFAULT_CITY" 0]
    by (auto simp: init_app_def init_ui_def)
  have e2: "storage a2 = Some (Json paris_record)" "mounted a2"
    using 1(1) mount_cached [OF p, of 0] by auto
  have m1: "mount 0 (init_app (Some (Json paris_record)))
       = Inr \<lparr>ui = \<lparr>city = Str ''Paris'', weatherData = sample_weather,
                forecastData = sample_forecast, isLoading = False, error = None,
                unit = ''celsius'', lastUpdated = Str ''2024-05-01T10:00:00.001Z''\<rparr>,
              storage = Some (Json paris_record), timer = Some (Str ''Paris'', 300),
              requests = [], mounted = True\<rparr>"
    unfolding 1(1) using 1 e1 e2 by (simp add: wait_def)
  from startup_sequence [OF n(1), of 0 "\<lambda>t. env_online"] n(2)
  obtain b1 b2 where 2: "mount 0 (init_app None) = Inr b2"
    "startup_effect (Str DEFAULT_CITY) 0 (init_app None) = Inr b1"
    "ui b2 = ui b1" "ui b1 = init_ui" "requests b2 = []" "timer b2 = Some (Str DEFAULT_CITY, 0 + wait)"
    by auto
  have e3: "storage b2 = None" "mounted b2"
    using 2(1) mount_absent [OF n, of 0] by (auto simp: init_app_def)
  have m2: "mount 0 (init_app None)
       = Inr \<lparr>ui = init_ui, storage = None, timer = Some (Str ''Delhi'', 300),
              requests = [], mounted = True\<rparr>"
    unfolding 2(1) using 2 e3 by (simp add: wait_def DEFAULT_CITY_def)
  show ?thesis using p n m1 m2 by simp
qed

subsection \<open>The debounce wrapper\<close>

lemma advance_quiet: "quiet_at t a \<Longrightarrow> advance world t a = a"
  by (auto simp: quiet_at_def advance_def split: option.splits)

lemma advance_due:
  "timer a = Some (c, due) \<Longrightarrow> due \<le> now \<Longrightarrow>
     advance world now a = fetchWeatherData_body (world due) c (a\<lparr>timer := None\<rparr>)"
  by (simp add: advance_def)

lemma run_calls_burst:
  assumes "burst ((t, c) # calls)" and "quiet_at t a"
  shows "run_calls world ((t, c) # calls) a =
     a\<lparr>timer := Some (snd (last ((t, c) # calls)), fst (last ((t, c) # calls)) + wait)\<rparr>"
  using assms
proof (induction calls arbitrary: t c a)
  case Nil
  then show ?case by (simp add: advance_quiet fetchWeatherData_def)
next
  case (Cons x calls)
  obtain t2 c2 where x: "x = (t2, c2)" by (cases x)
  let ?a1 = "fetchWeatherData c t (advance world t a)"
  have a1: "?a1 = a\<lparr>timer := Some (c, t + wait)\<rparr>"
    using Cons.prems by (simp add: advance_quiet fetchWeatherData_def)
  have b: "burst ((t2, c2) # calls)" and lt: "t2 < t + wait"
    using Cons.prems(1) x by simp_all
  have q: "quiet_at t2 ?a1"
    using lt by (simp add: a1 quiet_at_def)
  have "run_calls world ((t, c) # x # calls) a = run_calls world ((t2, c2) # calls) ?a1"
    by (simp add: x)
  also have "\<dots> = ?a1\<lparr>timer := Some (snd (last ((t2, c2) # calls)), fst (last ((t2, c2) # calls)) + wait)\<rparr>"
    by (rule Cons.IH [OF b q])
  finally show ?case by (simp add: a1 x)
qed

lemma just_mounted_eq: "mount 0 (init_app None) = Inr just_mounted"
  by (simp add: mount_def startup_effect_def and_then_def city_effect_def fetchWeatherData_def
      just_mounted_def init_app_def init_ui_def)

lemma scenario_E:
  "requests (advance world_online 400
      (onCitySelect (Str ''Rome'') 100 (advance world_online 100 (handleRefresh 0 showing_paris))))
    = requests showing_paris @ [GET weather (Str ''Rome''), GET forecast (Str ''Rome'')]"
  by (simp add: handleRefresh_def onCitySelect_def city_effect_def advance_def wait_def
      fetchWeatherData_def setCity_def showing_paris_eq body_requests sent_def
      world_online_def env_online_def)

text \<open>
  Claim C1. Let a burst of calls of the debounced function start with no call pending.
  During the burst nothing is sent. Once the window of the last call has elapsed, the
  state is that of one run of the fetch function on the state before the burst, for the
  city of the last call: the requests sent are those of that one run, no call is pending
  any more, and no further run follows.
\<close>

theorem burst_runs_last_call_once:
  assumes "calls \<noteq> []" and "burst calls" and "timer a = None"
    and "fst (last calls) + wait \<le> now"
    and "end_state = advance world now (run_calls world calls a)"
  shows "requests (run_calls world calls a) = requests a
    \<and> end_state = fetchWeatherData_body (world (fst (last calls) + wait)) (snd (last calls)) a
    \<and> requests end_state
        = requests a @ sent (world (fst (last calls) + wait)) (snd (last calls))
    \<and> timer end_state = None
    \<and> advance world later end_state = end_state"
proof -
  obtain t c rest where calls: "calls = (t, c) # rest"
    using assms(1) by (cases calls) auto
  have q: "quiet_at t a"
    using assms(3) by (simp add: quiet_at_def)
  let ?c = "snd (last calls)" and ?due = "fst (last calls) + wait"
  have r: "run_calls world calls a = a\<lparr>timer := Some (?c, ?due)\<rparr>"
    using run_calls_burst [OF assms(2) [unfolded calls] q] calls by simp
  have "a\<lparr>timer := Some (?c, ?due), timer := None\<rparr> = a"
    using assms(3) by simp
  then have e: "end_state = fetchWeatherData_body (world ?due) ?c a"
    unfolding assms(5) r using assms(4) by (simp add: advance_def)
  have t: "timer end_state = None"
    unfolding e using assms(3) by (simp add: body_timer)
  show ?thesis
    using r e t by (simp add: body_requests advance_def)
qed

theorem burst_runs_last_call_once_witness:
  "[(0, Str ''Paris''), (100, Str ''Rome'')] \<noteq> []
   \<and> burst [(0, Str ''Paris''), (100, Str ''Rome'')]
   \<and> timer showing_paris = None
   \<and> fst (last [(0::nat, Str ''Paris''), (100, Str ''Rome'')]) + wait \<le> 400
   \<and> requests (run_calls world_online [(0, Str ''Paris''), (100, Str ''Rome'')] showing_paris)
       = requests showing_paris
   \<and> requests (advance world_online 400
        (run_calls world_online [(0, Str ''Paris''), (100, Str ''Rome'')] showing_paris))
       = requests showing_paris @ [GET weather (Str ''Rome''), GET forecast (Str ''Rome'')]"
proof -
  have h: "[(0::nat, Str ''Paris''), (100, Str ''Rome'')] \<noteq> []"
    "burst [(0, Str ''Paris''), (100, Str ''Rome'')]"
    "timer showing_paris = None"
    "fst (last [(0::nat, Str ''Paris''), (100, Str ''Rome'')]) + wait \<le> 400"
    by (simp_all add: wait_def showing_paris_eq)
  have s: "sent (world_online (fst (last [(0::nat, Str ''Paris''), (100, Str ''Rome'')]) + wait))
      (snd (last [(0::nat, Str ''Paris''), (100, Str ''Rome'')]))
      = [GET weather (Str ''Rome''), GET forecast (Str ''Rome'')]"
    by (simp add: sent_def world_online_def env_online_def)
  note T = burst_runs_last_call_once [OF h refl, of world_online]
  have a: "requests (run_calls world_online [(0, Str ''Paris''), (100, Str ''Rome'')]
      showing_paris) = requests showing_paris"
    using T by blast
  have "requests (advance world_online 400
        (run_calls world_online [(0, Str ''Paris''), (100, Str ''Rome'')] showing_paris))
       = requests showing_paris
         @ sent (world_online (fst (last [(0::nat, Str ''Paris''), (100, Str ''Rome'')]) + wait))
             (snd (last [(0::nat, Str ''Paris''), (100, Str ''Rome'')]))"
    using T by blast
  then have b: "requests (advance world_online 400
        (run_calls world_online [(0, Str ''Paris''), (100, Str ''Rome'')] showing_paris))
       = requests showing_paris @ [GET weather (Str ''Rome''), GET forecast (Str ''Rome'')]"
    unfolding s .
  show ?thesis
    using h a b by blast
qed

subsection \<open>Teardown\<close>

lemma body_storage:
  "storage (fetchWeatherData_body env c a) =
    (case fst (fetch_snapshot env c a) of
       Inl e \<Rightarrow> storage a
     | Inr (wd, fd) \<Rightarrow>
         (case setItem_throws env of
            Some e \<Rightarrow> storage a
          | None \<Rightarrow> Some (JSON_stringify (Obj [(''city'', c), (''weatherData'', wd),
                (''forecastData'', fd), (''lastUpdated'', Str (date2 env))]))))"
  by (cases "fst (fetch_snapshot env c a)"; cases "setItem_throws env")
     (auto simp: body_failure body_success body_write_refused)

lemma body_storage_cong:
  assumes "storage a = storage b"
  shows "storage (fetchWeatherData_body env c a) = storage (fetchWeatherData_body env c b)"
proof -
  have "fst (fetch_snapshot env c a) = fst (fetch_snapshot env c b)"
    by (rule snapshot_result_indep)
  then show ?thesis
    unfolding body_storage using assms
    by (simp del: jsonify.simps JSON_stringify.simps
        split: sum.split option.split prod.split)
qed

lemma body_unmounted: "\<not> mounted a \<Longrightarrow> ui (fetchWeatherData_body env c a) = ui a"
  by (cases "fst (fetch_snapshot env c a)"; cases "setItem_throws env")
     (auto simp: body_failure body_success body_write_refused)

text \<open>
  Claim C6, as stated: teardown discards the pending call. It fails: nothing cancels the
  timer, so the call pending at teardown still runs, sends both requests and overwrites
  the cache slot.
\<close>

theorem teardown_discards_pending_counterexample:
  "timer (teardown just_mounted) = Some (Str ''Delhi'', 300)
   \<and> requests (teardown just_mounted) = []
   \<and> storage (teardown just_mounted) = None
   \<and> requests (advance world_online 300 (teardown just_mounted))
       = [GET weather (Str ''Delhi''), GET forecast (Str ''Delhi'')]
   \<and> storage (advance world_online 300 (teardown just_mounted))
       = Some (Json (Obj [(''city'', Str ''Delhi''), (''weatherData'', sample_weather),
           (''forecastData'', sample_forecast),
           (''lastUpdated'', Str ''2024-05-01T10:00:00.001Z'')]))"
  by (simp add: teardown_def just_mounted_def init_app_def wait_def DEFAULT_CITY_def
      advance_def body_requests body_storage sample_snapshots sent_def
      world_online_def) (simp add: env_online_def sample_weather_def sample_forecast_def)

text \<open>
  Claim C6, amended. Teardown leaves the pending call in place: when its window has
  elapsed it runs as it would have without the teardown, as far as the requests sent and
  the cache slot go. Its state updates are dropped, so the UI state is not updated after
  teardown.
\<close>

theorem teardown_keeps_pending_call:
  "timer (teardown a) = timer a
   \<and> requests (advance world now (teardown a)) = requests (advance world now a)
   \<and> storage (advance world now (teardown a)) = storage (advance world now a)
   \<and> ui (advance world now (teardown a)) = ui a"
proof -
  have 1: "timer (teardown a) = timer a"
    by (simp add: teardown_def)
  have s: "\<And>env c. fst (fetch_snapshot env c (teardown a\<lparr>timer := None\<rparr>))
      = fst (fetch_snapshot env c (a\<lparr>timer := None\<rparr>))"
    by (rule snapshot_result_indep)
  have 2: "requests (advance world now (teardown a)) = requests (advance world now a)"
    by (simp add: advance_def 1 body_requests split: option.split) (simp add: teardown_def)
  have "\<And>env c. storage (fetchWeatherData_body env c (teardown a\<lparr>timer := None\<rparr>))
      = storage (fetchWeatherData_body env c (a\<lparr>timer := None\<rparr>))"
    by (rule body_storage_cong) (simp add: teardown_def)
  then have 3: "storage (advance world now (teardown a)) = storage (advance world now a)"
    by (simp add: advance_def 1 split: option.split) (simp add: teardown_def)
  have "\<And>env c. ui (fetchWeatherData_body env c (teardown a\<lparr>timer := None\<rparr>)) = ui a"
    by (subst body_unmounted) (simp_all add: teardown_def)
  then have 4: "ui (advance world now (teardown a)) = ui a"
    by (simp add: advance_def 1 split: option.split) (simp add: teardown_def)
  show ?thesis using 1 2 3 4 by simp
qed

theorem teardown_keeps_pending_call_witness:
  "timer (teardown just_mounted) = Some (Str ''Delhi'', 300)
   \<and> requests (advance world_online 300 (teardown just_mounted))
       = requests (advance world_online 300 just_mounted)
   \<and> requests (advance world_online 300 just_mounted)
       = [GET weather (Str ''Delhi''), GET forecast (Str ''Delhi'')]
   \<and> ui (advance world_online 300 (teardown just_mounted)) = init_ui"
proof -
  have t: "timer just_mounted = Some (Str ''Delhi'', 300)" and u: "ui just_mounted = init_ui"
    by (simp_all add: just_mounted_def wait_def DEFAULT_CITY_def init_app_def)
  have r: "requests (advance world_online 300 just_mounted)
       = [GET weather (Str ''Delhi''), GET forecast (Str ''Delhi'')]"
    by (simp add: advance_def t body_requests sent_def world_online_def env_online_def)
       (simp add: just_mounted_def init_app_def)
  show ?thesis
    using teardown_keeps_pending_call [of just_mounted world_online 300] t u r by simp
qed


end
